theory Spec2Isabelle
  imports Complex_Main
begin

section \<open>Battery\_Watcher\_Free.py: a shallow embedding\<close>

text \<open>
  The script polls the battery sensor, classifies the reading against two thresholds,
  prints one line per cycle and, when the status changed and the last notification is
  more than ten seconds old, sends a Telegram message and a Windows toast.

  Python's unbounded \<open>int\<close> is \<open>int\<close>; \<open>str\<close> is \<open>string\<close> (the three non-ASCII
  characters of the script are written as their UTF-8 bytes); \<open>None\<close> is \<open>None\<close>;
  the clock and the sensor's percentage are finite floats, read here as \<open>real\<close>.
  Everything the script gets from outside (the sensor reading, the clock, the outcome
  of the HTTP request and of the toast call) is an argument of the model, and everything
  it does to the outside is an entry of an event trace.
\<close>

subsection \<open>Exceptions, events and effects\<close>

text \<open>
  The exceptions an outside call can raise, by the classes the script's handlers tell
  apart: \<open>urllib.error.HTTPError\<close>; the other subclasses of \<open>Exception\<close> (here
  \<open>URLError\<close>, a timeout, and any other); and the exceptions that derive from
  \<open>BaseException\<close> only, which \<open>except Exception\<close> does not catch. The string is
  \<open>str(e)\<close>.
\<close>

datatype py_exception =
    HTTPError string
  | URLError string
  | TimeoutError string
  | OtherException string
  | KeyboardInterrupt
  | SystemExit

fun is_HTTPError :: "py_exception \<Rightarrow> bool" where
  "is_HTTPError (HTTPError _) = True"
| "is_HTTPError _ = False"

fun is_Exception :: "py_exception \<Rightarrow> bool" where
  "is_Exception KeyboardInterrupt = False"
| "is_Exception SystemExit = False"
| "is_Exception _ = True"

fun str_exception :: "py_exception \<Rightarrow> string" where
  "str_exception (HTTPError m) = m"
| "str_exception (URLError m) = m"
| "str_exception (TimeoutError m) = m"
| "str_exception (OtherException m) = m"
| "str_exception KeyboardInterrupt = []"
| "str_exception SystemExit = []"

text \<open>
  The request handed to \<open>urlopen\<close>. The body is \<open>json.dumps\<close> of a dictionary with
  the two keys \<open>chat_id\<close> and \<open>text\<close>; the record keeps the two values and leaves the
  JSON encoding out. (\<open>json.dumps\<close> escapes every non-ASCII character of a \<open>str\<close>,
  so the encoding to UTF-8 that follows it cannot fail.)
\<close>

record request =
  url :: string
  payload_chat_id :: string
  payload_text :: string
  content_type :: string
  timeout :: nat

datatype event =
    Print string
  | UrlOpen request
  | Win11Toast string string
  | Sleep nat

text \<open>A notification send, on either channel.\<close>

fun is_send :: "event \<Rightarrow> bool" where
  "is_send (UrlOpen _) = True"
| "is_send (Win11Toast _ _) = True"
| "is_send _ = False"

text \<open>
  A computation of the script: the events it caused, in order, and either the exception
  that ended it or its value.
\<close>

type_synonym 'a io = "event list \<times> (py_exception + 'a)"

definition return_io :: "'a \<Rightarrow> 'a io" where
  "return_io x = ([], Inr x)"

definition emit :: "event \<Rightarrow> unit io" where
  "emit ev = ([ev], Inr ())"

definition then_do :: "'a io \<Rightarrow> ('a \<Rightarrow> 'b io) \<Rightarrow> 'b io" where
  "then_do m f =
     (case m of
        (out, Inl e) \<Rightarrow> (out, Inl e)
      | (out, Inr x) \<Rightarrow> (case f x of (out', r) \<Rightarrow> (out @ out', r)))"

subsection \<open>Formatting integers, as \<open>str\<close> and the format specs \<open>d\<close> and \<open>02d\<close> do\<close>

definition digit_char :: "nat \<Rightarrow> char" where
  "digit_char d = char_of (48 + d)"

function str_nat :: "nat \<Rightarrow> string" where
  "str_nat n =
     (if n < 10 then [digit_char n]
      else str_nat (n div 10) @ [digit_char (n mod 10)])"
  by pat_completeness auto
termination
  by (relation "measure id") auto

declare str_nat.simps [simp del]

text \<open>\<open>format(i, 'd')\<close>, which is also \<open>str(i)\<close>: a minus sign, then the digits.\<close>

definition format_d :: "int \<Rightarrow> string" where
  "format_d i = (if i < 0 then CHR ''-'' # str_nat (nat (- i)) else str_nat (nat i))"

text \<open>
  \<open>format(i, '0wd')\<close>: the sign comes first and the zeros fill what is left of the
  width \<open>w\<close>; a number wider than \<open>w\<close> is not cut.
\<close>

definition zero_fill :: "nat \<Rightarrow> string \<Rightarrow> string" where
  "zero_fill w s = replicate (w - length s) CHR ''0'' @ s"

definition format_0d :: "nat \<Rightarrow> int \<Rightarrow> string" where
  "format_0d w i =
     (if i < 0 then CHR ''-'' # zero_fill (w - 1) (str_nat (nat (- i)))
      else zero_fill w (str_nat (nat i)))"

subsection \<open>\<open>secs_to_hms\<close>\<close>

text \<open>
  The two sentinels are constants of psutil, not of this script: psutil defines
  \<open>POWER_TIME_UNKNOWN = -1\<close> and \<open>POWER_TIME_UNLIMITED = -2\<close>.
\<close>

definition POWER_TIME_UNKNOWN :: int where
  "POWER_TIME_UNKNOWN = - 1"

definition POWER_TIME_UNLIMITED :: int where
  "POWER_TIME_UNLIMITED = - 2"

text \<open>
  \<open>divmod\<close> is floor division, as \<open>div\<close> and \<open>mod\<close> on \<open>int\<close> are for a positive
  divisor.
\<close>

definition secs_to_hms :: "int option \<Rightarrow> string" where
  "secs_to_hms secs =
     (case secs of
        None \<Rightarrow> ''unknown''
      | Some s \<Rightarrow>
          if s = POWER_TIME_UNKNOWN \<or> s = POWER_TIME_UNLIMITED then ''unknown''
          else if s > 60 * 60 * 24 * 7 then ''no driver estimate''
          else
            let mm = s div 60; ss = s mod 60;
                hh = mm div 60; mm = mm mod 60
            in format_d hh @ '':'' @ format_0d 2 mm @ '':'' @ format_0d 2 ss)"

subsection \<open>\<open>check_battery_level\<close>\<close>

text \<open>
  What \<open>psutil.sensors_battery()\<close> returns when there is a battery: the percentage (a
  float on Linux, an integer on Windows), the seconds left (a number or a sentinel) and
  whether the power is plugged (\<open>True\<close>, \<open>False\<close> or \<open>None\<close>).
\<close>

record sbattery =
  percent :: real
  secsleft :: "int option"
  power_plugged :: "bool option"

text \<open>The dictionary the function returns, with its four keys.\<close>

record info =
  status :: string
  percent :: int
  plugged :: bool
  time_hms :: string

text \<open>\<open>round\<close> of a float with no second argument: the nearest integer, a tie to the even one.\<close>

definition py_round :: "real \<Rightarrow> int" where
  "py_round x =
     (let f = \<lfloor>x\<rfloor>; r = x - of_int f
      in if r < 1 / 2 then f
         else if 1 / 2 < r then f + 1
         else if even f then f else f + 1)"

text \<open>
  The first argument is the outcome of \<open>psutil.sensors_battery()\<close>: an exception, no
  battery, or a reading. \<open>bool(None)\<close> is \<open>False\<close>.
\<close>

definition check_battery_level ::
  "(py_exception + sbattery option) \<Rightarrow> int \<Rightarrow> int \<Rightarrow> info option io" where
  "check_battery_level sensors_battery low_threshold high_threshold =
     (case sensors_battery of
        Inl e \<Rightarrow> ([], Inl e)
      | Inr None \<Rightarrow> ([Print ''No battery detected.''], Inr None)
      | Inr (Some bat) \<Rightarrow>
          let percent = py_round (sbattery.percent bat);
              plugged = (power_plugged bat = Some True);
              human = secs_to_hms (secsleft bat);
              status =
                (if \<not> plugged \<and> percent \<le> low_threshold then ''low''
                 else if plugged \<and> percent \<ge> high_threshold then ''high''
                 else ''normal'')
          in ([], Inr (Some \<lparr>status = status, percent = percent,
                              plugged = plugged, time_hms = human\<rparr>)))"

subsection \<open>\<open>send_telegram_message\<close> and \<open>send_windows_toast\<close>\<close>

text \<open>
  The first argument is the outcome of the \<open>try\<close> block's body (\<open>urlopen\<close> and
  \<open>resp.read()\<close>): an exception or a response. An empty \<open>str\<close> is false.
\<close>

definition send_telegram_message ::
  "(py_exception + unit) \<Rightarrow> string \<Rightarrow> string \<Rightarrow> string \<Rightarrow> bool io" where
  "send_telegram_message urlopen bot_token chat_id text =
     (if bot_token = [] \<or> chat_id = [] then ([], Inr False)
      else
        let req = \<lparr>url = ''https://api.telegram.org/bot'' @ bot_token @ ''/sendMessage'',
                   payload_chat_id = chat_id, payload_text = text,
                   content_type = ''application/json'', timeout = 10\<rparr>
        in (case urlopen of
              Inr _ \<Rightarrow> ([UrlOpen req], Inr True)
            | Inl e \<Rightarrow>
                if is_HTTPError e then
                  ([UrlOpen req, Print (''Telegram HTTP error: '' @ str_exception e)], Inr False)
                else if is_Exception e then
                  ([UrlOpen req, Print (''Telegram send failed: '' @ str_exception e)], Inr False)
                else ([UrlOpen req], Inl e)))"

text \<open>
  \<open>HAVE_WIN11TOAST\<close> is set once, when the module is imported; the second argument is
  the outcome of the call of \<open>win11_toast\<close>.
\<close>

definition send_windows_toast ::
  "bool \<Rightarrow> (py_exception + unit) \<Rightarrow> string \<Rightarrow> string \<Rightarrow> unit io" where
  "send_windows_toast HAVE_WIN11TOAST win11_toast title msg =
     (if HAVE_WIN11TOAST then
        (case win11_toast of
           Inr _ \<Rightarrow> ([Win11Toast title msg], Inr ())
         | Inl e \<Rightarrow>
             if is_Exception e then
               ([Win11Toast title msg, Print (''Toast failed: '' @ str_exception e)], Inr ())
             else ([Win11Toast title msg], Inl e))
      else ([], Inr ()))"

subsection \<open>\<open>main\<close>\<close>

definition LOW_THRESHOLD :: int where
  "LOW_THRESHOLD = 20"

definition HIGH_THRESHOLD :: int where
  "HIGH_THRESHOLD = 85"

definition POLL_SECONDS :: nat where
  "POLL_SECONDS = 60"

definition BOT_TOKEN :: string where
  "BOT_TOKEN = ''8504017218:AAEQdirPkdctFIh8zwJm2Q3EISrLjcxTl2A''"

definition CHAT_ID :: string where
  "CHAT_ID = ''779056769''"

text \<open>The em dash (U+2014) and the battery sign (U+1F50B), as UTF-8.\<close>

definition em_dash :: string where
  "em_dash = [CHR 0xE2, CHR 0x80, CHR 0x94]"

definition battery_sign :: string where
  "battery_sign = [CHR 0xF0, CHR 0x9F, CHR 0x94, CHR 0x8B]"

text \<open>\<open>str.upper\<close> on ASCII letters (the three statuses are ASCII).\<close>

definition upper_char :: "char \<Rightarrow> char" where
  "upper_char c =
     (let k = (of_char c :: nat) in if 97 \<le> k \<and> k \<le> 122 then char_of (k - 32) else c)"

definition upper :: "string \<Rightarrow> string" where
  "upper s = map upper_char s"

definition str_bool :: "bool \<Rightarrow> string" where
  "str_bool b = (if b then ''True'' else ''False'')"

definition message :: "info \<Rightarrow> string" where
  "message i =
     ''Battery '' @ upper (status i) @ '' '' @ em_dash @ '' '' @
     format_d (percent i) @ ''% '' @
     ''(plugged: '' @ str_bool (plugged i) @ '') '' @ em_dash @ '' '' @
     time_hms i"

text \<open>The two variables the loop carries from one cycle to the next.\<close>

record loop_state =
  last_status :: "string option"
  last_notify :: real

definition initial_state :: loop_state where
  "initial_state = \<lparr>last_status = None, last_notify = 0\<rparr>"

text \<open>
  What one cycle gets from outside: the sensor's outcome, the clock read in the
  condition, the outcomes of the two sends, and the clock read for \<open>last_notify\<close>.
\<close>

record cycle_env =
  sensor_result :: "py_exception + sbattery option"
  time_check :: real
  urlopen_result :: "py_exception + unit"
  toast_result :: "py_exception + unit"
  time_stamp :: real

text \<open>The body of the \<open>if\<close> that compares the status with \<open>last_status\<close>.\<close>

definition notify :: "bool \<Rightarrow> cycle_env \<Rightarrow> string \<Rightarrow> real io" where
  "notify HAVE_WIN11TOAST env msg =
     then_do
       (if BOT_TOKEN \<noteq> [] \<and> CHAT_ID \<noteq> [] then
          send_telegram_message (urlopen_result env) BOT_TOKEN CHAT_ID (battery_sign @ '' '' @ msg)
        else return_io False)
       (\<lambda>_. then_do
          (send_windows_toast HAVE_WIN11TOAST (toast_result env) ''Battery Watcher'' msg)
          (\<lambda>_. return_io (time_stamp env)))"

text \<open>The body of \<open>if info:\<close>.\<close>

definition handle_info :: "bool \<Rightarrow> cycle_env \<Rightarrow> loop_state \<Rightarrow> info \<Rightarrow> loop_state io" where
  "handle_info HAVE_WIN11TOAST env st i =
     (let msg = message i in
      then_do (emit (Print msg))
        (\<lambda>_. then_do
           (if Some (status i) \<noteq> last_status st \<and> time_check env - last_notify st > 10
            then notify HAVE_WIN11TOAST env msg
            else return_io (last_notify st))
           (\<lambda>t. return_io \<lparr>last_status = Some (status i), last_notify = t\<rparr>)))"

text \<open>One pass through the body of \<open>while True\<close>.\<close>

definition loop_body :: "bool \<Rightarrow> cycle_env \<Rightarrow> loop_state \<Rightarrow> loop_state io" where
  "loop_body HAVE_WIN11TOAST env st =
     then_do (check_battery_level (sensor_result env) LOW_THRESHOLD HIGH_THRESHOLD)
       (\<lambda>r. then_do
          (case r of
             None \<Rightarrow> return_io st
           | Some i \<Rightarrow> handle_info HAVE_WIN11TOAST env st i)
          (\<lambda>st'. then_do (emit (Sleep POLL_SECONDS)) (\<lambda>_. return_io st')))"

text \<open>
  The loop has no exit: the process runs until an exception ends it. \<open>main_loop\<close> runs
  the cycles whose outside inputs are given, one per entry of the list, and returns the
  trace and the state after the last of them, or the exception that ended the process.
\<close>

fun main_loop :: "bool \<Rightarrow> cycle_env list \<Rightarrow> loop_state \<Rightarrow> loop_state io" where
  "main_loop HAVE_WIN11TOAST [] st = return_io st"
| "main_loop HAVE_WIN11TOAST (env # envs) st =
     then_do (loop_body HAVE_WIN11TOAST env st) (main_loop HAVE_WIN11TOAST envs)"

definition main :: "bool \<Rightarrow> cycle_env list \<Rightarrow> loop_state io" where
  "main HAVE_WIN11TOAST envs =
     then_do (emit (Print ''Battery Watcher started...''))
       (\<lambda>_. main_loop HAVE_WIN11TOAST envs initial_state)"

subsection \<open>Reading \<open>H:MM:SS\<close> back\<close>

text \<open>
  The reader below is not part of the script. It says what "a string of the form
  \<open>H:MM:SS\<close>" is: three fields separated by colons, each a nonempty run of decimal
  digits, the last two of exactly two digits.
\<close>

fun split_on :: "char \<Rightarrow> string \<Rightarrow> string list" where
  "split_on c [] = [[]]"
| "split_on c (x # xs) =
     (if x = c then [] # split_on c xs
      else (case split_on c xs of
              [] \<Rightarrow> [[x]]
            | f # fs \<Rightarrow> (x # f) # fs))"

definition digit_val :: "char \<Rightarrow> nat option" where
  "digit_val c =
     (let k = (of_char c :: nat) in if 48 \<le> k \<and> k \<le> 57 then Some (k - 48) else None)"

fun dec_acc :: "nat \<Rightarrow> string \<Rightarrow> nat option" where
  "dec_acc a [] = Some a"
| "dec_acc a (c # cs) =
     (case digit_val c of None \<Rightarrow> None | Some d \<Rightarrow> dec_acc (10 * a + d) cs)"

definition dec_value :: "string \<Rightarrow> nat option" where
  "dec_value s = (if s = [] then None else dec_acc 0 s)"

definition parse_hms :: "string \<Rightarrow> (nat \<times> nat \<times> nat) option" where
  "parse_hms t =
     (case split_on CHR '':'' t of
        [h, m, s] \<Rightarrow>
          if length m = 2 \<and> length s = 2 then
            (case dec_value h of
               None \<Rightarrow> None
             | Some hh \<Rightarrow>
                 (case dec_value m of
                    None \<Rightarrow> None
                  | Some mm \<Rightarrow>
                      (case dec_value s of
                         None \<Rightarrow> None
                       | Some ss \<Rightarrow> Some (hh, mm, ss))))
          else None
      | _ \<Rightarrow> None)"

subsection \<open>The range of a percentage\<close>

text \<open>The data model's \<open>percent\<close>: an integer from 0 to 100.\<close>

definition percent_in_range :: "info \<Rightarrow> bool" where
  "percent_in_range i \<longleftrightarrow> 0 \<le> percent i \<and> percent i \<le> 100"

subsection \<open>Sample inputs\<close>

text \<open>
  A reading with a given percentage and plug state, and a cycle in which both sends
  succeed and the clock stands at \<open>t\<close>.
\<close>

definition example_reading :: "real \<Rightarrow> bool \<Rightarrow> sbattery" where
  "example_reading p pl =
     \<lparr>sbattery.percent = p, secsleft = Some POWER_TIME_UNKNOWN, power_plugged = Some pl\<rparr>"

definition example_env :: "sbattery option \<Rightarrow> real \<Rightarrow> cycle_env" where
  "example_env r t =
     \<lparr>sensor_result = Inr r, time_check = t, urlopen_result = Inr (),
      toast_result = Inr (), time_stamp = t\<rparr>"

definition example_info :: "string \<Rightarrow> int \<Rightarrow> bool \<Rightarrow> info" where
  "example_info s p pl = \<lparr>status = s, percent = p, plugged = pl, time_hms = ''unknown''\<rparr>"

section \<open>Properties\<close>

subsection \<open>Decimal digits\<close>

lemma digit_val_digit_char: "d < 10 \<Longrightarrow> digit_val (digit_char d) = Some d"
  by (simp add: digit_val_def digit_char_def)

lemma digit_char_not_colon: "d < 10 \<Longrightarrow> digit_char d \<noteq> CHR '':''"
proof
  assume d: "d < 10" and eq: "digit_char d = CHR '':''"
  from eq have "digit_val (digit_char d) = digit_val CHR '':''" by simp
  with d show False by (simp add: digit_val_digit_char) (simp add: digit_val_def)
qed

lemma str_nat_not_empty: "str_nat n \<noteq> []"
  by (subst str_nat.simps) simp

lemma colon_not_in_str_nat: "CHR '':'' \<notin> set (str_nat n)"
proof (induction n rule: str_nat.induct)
  case (1 n)
  show ?case
  proof (cases "n < 10")
    case True
    then show ?thesis
      using digit_char_not_colon [of n] by (subst str_nat.simps) auto
  next
    case False
    then show ?thesis
      using "1" digit_char_not_colon [of "n mod 10"] by (subst str_nat.simps) auto
  qed
qed

lemma dec_acc_snoc:
  "d < 10 \<Longrightarrow>
   dec_acc a (cs @ [digit_char d]) = map_option (\<lambda>v. 10 * v + d) (dec_acc a cs)"
  by (induction cs arbitrary: a) (auto simp: digit_val_digit_char split: option.splits)

lemma dec_acc_str_nat: "dec_acc 0 (str_nat n) = Some n"
proof (induction n rule: str_nat.induct)
  case (1 n)
  show ?case
  proof (cases "n < 10")
    case True
    then show ?thesis
      by (subst str_nat.simps) (simp add: digit_val_digit_char)
  next
    case False
    then have "dec_acc 0 (str_nat (n div 10)) = Some (n div 10)"
      using "1" by simp
    with False show ?thesis
      by (subst str_nat.simps) (simp add: dec_acc_snoc)
  qed
qed

lemma dec_value_str_nat: "dec_value (str_nat n) = Some n"
  by (simp add: dec_value_def str_nat_not_empty dec_acc_str_nat)

subsection \<open>Fields and padding\<close>

lemma split_on_no_sep: "c \<notin> set a \<Longrightarrow> split_on c a = [a]"
  by (induction a) auto

lemma split_on_append: "c \<notin> set a \<Longrightarrow> split_on c (a @ c # b) = a # split_on c b"
  by (induction a) auto

lemma str_nat_small: "n < 10 \<Longrightarrow> str_nat n = [digit_char n]"
  by (subst str_nat.simps) simp

lemma length_str_nat_two: "10 \<le> n \<Longrightarrow> n < 100 \<Longrightarrow> length (str_nat n) = 2"
  by (subst str_nat.simps) (simp add: str_nat_small)

lemma length_two_digits: "n < 100 \<Longrightarrow> length (zero_fill 2 (str_nat n)) = 2"
  by (cases "n < 10") (simp_all add: zero_fill_def str_nat_small length_str_nat_two)

lemma digit_val_zero: "digit_val CHR ''0'' = Some 0"
  by (simp add: digit_val_def)

lemma dec_acc_zeros: "dec_acc 0 (replicate k CHR ''0'' @ s) = dec_acc 0 s"
  by (induction k) (simp_all add: digit_val_zero)

lemma dec_value_zero_fill: "dec_value (zero_fill w (str_nat n)) = Some n"
  by (simp add: dec_value_def zero_fill_def dec_acc_zeros dec_acc_str_nat str_nat_not_empty)

lemma colon_not_in_zero_fill: "CHR '':'' \<notin> set (zero_fill w (str_nat n))"
  by (simp add: zero_fill_def colon_not_in_str_nat)

lemma parse_hms_fields:
  assumes "m < 100" "s < 100"
  shows "parse_hms (str_nat h @ '':'' @ zero_fill 2 (str_nat m) @ '':'' @ zero_fill 2 (str_nat s))
         = Some (h, m, s)"
proof -
  have "split_on CHR '':'' (str_nat h @ '':'' @ zero_fill 2 (str_nat m) @ '':'' @ zero_fill 2 (str_nat s))
        = [str_nat h, zero_fill 2 (str_nat m), zero_fill 2 (str_nat s)]"
    using split_on_append [OF colon_not_in_str_nat]
      split_on_append [OF colon_not_in_zero_fill]
      split_on_no_sep [OF colon_not_in_zero_fill]
    by simp
  then show ?thesis
    using assms by (simp add: parse_hms_def length_two_digits dec_value_str_nat dec_value_zero_fill)
qed

lemma secs_to_hms_nonneg:
  assumes "0 \<le> secs" "secs \<le> 604800"
  shows "secs_to_hms (Some secs) =
     str_nat (nat (secs div 60 div 60)) @ '':'' @
     zero_fill 2 (str_nat (nat (secs div 60 mod 60))) @ '':'' @
     zero_fill 2 (str_nat (nat (secs mod 60)))"
proof -
  have h: "\<not> secs div 60 div 60 < 0"
    using assms(1) by (simp add: pos_imp_zdiv_nonneg_iff)
  have m: "\<not> secs div 60 mod 60 < 0" and s: "\<not> secs mod 60 < 0"
    by simp_all
  show ?thesis
    using assms h m s
    by (simp add: secs_to_hms_def POWER_TIME_UNKNOWN_def POWER_TIME_UNLIMITED_def
        format_d_def format_0d_def Let_def)
qed

subsection \<open>\<open>secs_to_hms\<close>: the three renderings\<close>

text \<open>
  Claim C2. \<open>secs_to_hms\<close> renders 3661 seconds as \<open>1:01:01\<close>; it renders a missing
  value and each of the two sentinels (unknown, unlimited) as \<open>unknown\<close>; and it renders
  every value strictly greater than 604800 seconds (one week), 700000 among them, as
  \<open>no driver estimate\<close>.
\<close>

theorem secs_to_hms_examples:
  "secs_to_hms (Some 3661) = ''1:01:01''
   \<and> secs_to_hms None = ''unknown''
   \<and> secs_to_hms (Some POWER_TIME_UNKNOWN) = ''unknown''
   \<and> secs_to_hms (Some POWER_TIME_UNLIMITED) = ''unknown''
   \<and> (\<forall>secs. 604800 < secs \<longrightarrow> secs_to_hms (Some secs) = ''no driver estimate'')"
proof -
  have "secs_to_hms (Some 3661) = ''1:01:01''"
    by code_simp
  moreover have "\<forall>secs. 604800 < secs \<longrightarrow> secs_to_hms (Some secs) = ''no driver estimate''"
    by (simp add: secs_to_hms_def POWER_TIME_UNKNOWN_def POWER_TIME_UNLIMITED_def)
  ultimately show ?thesis
    by (simp add: secs_to_hms_def)
qed

theorem secs_to_hms_examples_witness:
  "secs_to_hms (Some 700000) = ''no driver estimate''"
  using secs_to_hms_examples by simp

text \<open>
  Claim C10. For every \<open>secs\<close> from 0 to 604800 that is not a sentinel, the string
  \<open>secs_to_hms\<close> returns has the form \<open>H:MM:SS\<close>: it reads back as three decimal
  fields, the last two of exactly two digits and below 60, and
  \<open>H * 3600 + MM * 60 + SS\<close> is \<open>secs\<close> again.
\<close>

theorem secs_to_hms_roundtrip:
  assumes "0 \<le> secs" and "secs \<le> 604800"
    and "secs \<noteq> POWER_TIME_UNKNOWN" and "secs \<noteq> POWER_TIME_UNLIMITED"
  shows "\<exists>h m s. parse_hms (secs_to_hms (Some secs)) = Some (h, m, s)
           \<and> m < 60 \<and> s < 60 \<and> int (h * 3600 + m * 60 + s) = secs"
proof -
  define h where "h = nat (secs div 60 div 60)"
  define m where "m = nat (secs div 60 mod 60)"
  define s where "s = nat (secs mod 60)"
  have m: "m < 60" and s: "s < 60"
    using assms(1) by (simp_all add: m_def s_def nat_less_iff)
  have "parse_hms (secs_to_hms (Some secs)) = Some (h, m, s)"
    using m s assms(1,2)
    by (simp add: secs_to_hms_nonneg parse_hms_fields h_def m_def s_def del: append.simps)
  moreover have "int (h * 3600 + m * 60 + s) = secs"
  proof -
    have "int (h * 3600 + m * 60 + s) =
          secs div 60 div 60 * 3600 + secs div 60 mod 60 * 60 + secs mod 60"
      using assms(1) by (simp add: h_def m_def s_def pos_imp_zdiv_nonneg_iff)
    also have "\<dots> = secs"
      by presburger
    finally show ?thesis .
  qed
  ultimately show ?thesis using m s by blast
qed

theorem secs_to_hms_roundtrip_witness:
  "(0::int) \<le> 3661 \<and> (3661::int) \<le> 604800
   \<and> 3661 \<noteq> POWER_TIME_UNKNOWN \<and> 3661 \<noteq> POWER_TIME_UNLIMITED
   \<and> (\<exists>h m s. parse_hms (secs_to_hms (Some 3661)) = Some (h, m, s)
          \<and> m < 60 \<and> s < 60 \<and> int (h * 3600 + m * 60 + s) = 3661)"
  using secs_to_hms_roundtrip [of 3661]
  by (simp add: POWER_TIME_UNKNOWN_def POWER_TIME_UNLIMITED_def)

subsection \<open>\<open>check_battery_level\<close>: rounding and classification\<close>

lemma py_round_near: "\<bar>real_of_int (py_round x) - x\<bar> \<le> 1 / 2"
  unfolding py_round_def Let_def by (auto; linarith)

lemma py_round_mono_lower: "0 \<le> x \<Longrightarrow> 0 \<le> py_round x"
  unfolding py_round_def Let_def by (auto; linarith)

lemma py_round_le_floor_Suc: "py_round x \<le> \<lfloor>x\<rfloor> + 1"
  by (simp add: py_round_def Let_def)

lemma py_round_upper: "x \<le> 100 \<Longrightarrow> py_round x \<le> 100"
proof -
  assume x: "x \<le> 100"
  have fl: "\<lfloor>x\<rfloor> \<le> 100" using x by linarith
  show ?thesis
  proof (cases "\<lfloor>x\<rfloor> = 100")
    case True
    then have "x = 100" using x by linarith
    then show ?thesis by (simp add: py_round_def)
  next
    case False
    with fl have "\<lfloor>x\<rfloor> + 1 \<le> 100" by linarith
    with py_round_le_floor_Suc [of x] show ?thesis by linarith
  qed
qed

lemma check_battery_level_Some:
  "check_battery_level r lo hi = (out, Inr (Some i)) \<Longrightarrow> out = [] \<and> (\<exists>bat. r = Inr (Some bat))"
  by (auto simp: check_battery_level_def Let_def split: sum.splits option.splits)

lemma example_check:
  "check_battery_level (sensor_result (example_env (Some (example_reading 15 False)) t))
     LOW_THRESHOLD HIGH_THRESHOLD = ([], Inr (Some (example_info ''low'' 15 False)))"
  by (simp add: check_battery_level_def example_env_def example_reading_def example_info_def
      py_round_def secs_to_hms_def LOW_THRESHOLD_def HIGH_THRESHOLD_def)

lemma example_check_half:
  "check_battery_level (Inr (Some (example_reading (31 / 2) False))) 20 85
     = ([], Inr (Some (example_info ''low'' 16 False)))"
  by (simp add: check_battery_level_def example_reading_def example_info_def
      py_round_def secs_to_hms_def)

text \<open>
  Claim C1. For every reading and every pair of thresholds, \<open>check_battery_level\<close>
  returns a sample whose \<open>percent\<close> is the rounded reading, whose \<open>plugged\<close> is the
  reading's plug state, and whose \<open>status\<close> follows the three rules in order, the first
  match winning: \<open>low\<close> when not plugged and \<open>percent \<le> low_threshold\<close>; else \<open>high\<close>
  when plugged and \<open>percent \<ge> high_threshold\<close>; else \<open>normal\<close>. Both comparisons are
  inclusive: \<open>percent = low_threshold\<close> unplugged is \<open>low\<close>, \<open>percent = high_threshold\<close>
  plugged is \<open>high\<close>.
\<close>

theorem check_battery_level_classifies:
  "\<exists>i. check_battery_level (Inr (Some bat)) low_threshold high_threshold = ([], Inr (Some i))
       \<and> percent i = py_round (sbattery.percent bat)
       \<and> plugged i = (power_plugged bat = Some True)
       \<and> status i =
           (if \<not> plugged i \<and> percent i \<le> low_threshold then ''low''
            else if plugged i \<and> high_threshold \<le> percent i then ''high''
            else ''normal'')
       \<and> (\<not> plugged i \<and> percent i = low_threshold \<longrightarrow> status i = ''low'')
       \<and> (plugged i \<and> percent i = high_threshold \<longrightarrow> status i = ''high'')"
  by (simp add: check_battery_level_def Let_def)

theorem check_battery_level_classifies_witness:
  "\<exists>i. check_battery_level
          (Inr (Some \<lparr>sbattery.percent = 20, secsleft = Some 3661, power_plugged = Some False\<rparr>))
          20 85 = ([], Inr (Some i))
       \<and> percent i = 20 \<and> \<not> plugged i \<and> status i = ''low''"
  using check_battery_level_classifies
    [of "\<lparr>sbattery.percent = 20, secsleft = Some 3661, power_plugged = Some False\<rparr>" 20 85]
  by (auto simp: py_round_def)

text \<open>
  The script rounds the sensor's percentage and does not clamp it: the field has the
  range of the reading. A reading of 255 (the value Windows uses for a charge it does not
  know) gives a sample whose \<open>percent\<close> is 255, outside 0 to 100.
\<close>

theorem percent_unclamped_counterexample:
  "check_battery_level
     (Inr (Some \<lparr>sbattery.percent = 255, secsleft = Some POWER_TIME_UNLIMITED,
                 power_plugged = Some True\<rparr>)) 20 85
   = ([], Inr (Some \<lparr>status = ''high'', percent = 255, plugged = True, time_hms = ''unknown''\<rparr>))
   \<and> \<not> percent_in_range
         \<lparr>status = ''high'', percent = 255, plugged = True, time_hms = ''unknown''\<rparr>"
  by (simp add: check_battery_level_def py_round_def secs_to_hms_def percent_in_range_def)

text \<open>
  Claim C9 (as amended). For every sensor reading whose percentage lies from 0 to 100,
  the \<open>percent\<close> field of the sample \<open>check_battery_level\<close> returns is an integer from 0
  to 100, and it is the reading rounded: it differs from the reading by at most one half.
\<close>

theorem percent_rounded_in_range:
  assumes "0 \<le> sbattery.percent bat" and "sbattery.percent bat \<le> 100"
    and "check_battery_level (Inr (Some bat)) low_threshold high_threshold = (out, Inr (Some i))"
  shows "percent_in_range i
         \<and> \<bar>real_of_int (percent i) - sbattery.percent bat\<bar> \<le> 1 / 2"
proof -
  have "percent i = py_round (sbattery.percent bat)"
    using assms(3) by (auto simp: check_battery_level_def Let_def)
  then show ?thesis
    using assms(1,2) py_round_near [of "sbattery.percent bat"]
    by (simp add: percent_in_range_def py_round_mono_lower py_round_upper)
qed

theorem percent_rounded_in_range_witness:
  "percent_in_range (example_info ''low'' 16 False)
   \<and> \<bar>real_of_int (percent (example_info ''low'' 16 False))
        - sbattery.percent (example_reading (31 / 2) False)\<bar> \<le> 1 / 2"
  using percent_rounded_in_range [OF _ _ example_check_half]
  by (simp add: example_reading_def)

subsection \<open>\<open>send_telegram_message\<close>\<close>

text \<open>
  Claim C3. For every text and every outcome the network could have, if the bot token is
  empty or the chat id is empty, \<open>send_telegram_message\<close> returns \<open>False\<close> and its
  trace is empty: no request is made.
\<close>

theorem send_telegram_message_empty:
  "bot_token = [] \<or> chat_id = [] \<Longrightarrow>
   send_telegram_message outcome bot_token chat_id txt = ([], Inr False)"
  by (simp add: send_telegram_message_def)


theorem send_telegram_message_empty_witness:
  "send_telegram_message (Inr ()) [] ''779056769'' ''hello'' = ([], Inr False)"
  using send_telegram_message_empty [of "[]" "''779056769''" "Inr ()" "''hello''"]
  by simp

text \<open>
  Claim C4. For every token, chat id and text, and for every outcome of the HTTP request
  that is a response or an exception of class \<open>Exception\<close> (an HTTP status error, a
  transport error, a timeout or any other), \<open>send_telegram_message\<close> returns a boolean
  and raises nothing. The boolean is \<open>True\<close> exactly when the request was made and
  succeeded; when the request raised, the trace is the request followed by one printed
  line that carries the exception's text, and the boolean is \<open>False\<close>.
\<close>

theorem send_telegram_message_contained:
  assumes "\<forall>e. outcome = Inl e \<longrightarrow> is_Exception e"
  shows "\<exists>out b. send_telegram_message outcome bot_token chat_id txt = (out, Inr b)
           \<and> (b \<longleftrightarrow> bot_token \<noteq> [] \<and> chat_id \<noteq> [] \<and> outcome = Inr ())
           \<and> (\<forall>e. bot_token \<noteq> [] \<and> chat_id \<noteq> [] \<and> outcome = Inl e \<longrightarrow>
                 (\<exists>req. out =
                    [UrlOpen req,
                     Print ((if is_HTTPError e then ''Telegram HTTP error: ''
                             else ''Telegram send failed: '') @ str_exception e)]))"
proof (cases outcome)
  case (Inl e)
  with assms have "is_Exception e" by simp
  with Inl show ?thesis
    by (auto simp: send_telegram_message_def Let_def)
next
  case (Inr u)
  then show ?thesis
    by (auto simp: send_telegram_message_def Let_def)
qed

theorem send_telegram_message_contained_witness:
  "\<exists>req. send_telegram_message (Inl (TimeoutError ''timed out'')) ''t'' ''c'' ''hello'' =
     ([UrlOpen req, Print ''Telegram send failed: timed out''], Inr False)"
  using send_telegram_message_contained
    [of "Inl (TimeoutError ''timed out'')" "''t''" "''c''" "''hello''"]
  by auto

subsection \<open>The main loop\<close>

lemma loop_body_no_battery:
  "sensor_result env = Inr None \<Longrightarrow>
   loop_body ht env st = ([Print ''No battery detected.'', Sleep POLL_SECONDS], Inr st)"
  by (simp add: loop_body_def check_battery_level_def then_do_def return_io_def emit_def)

lemma loop_body_quiet:
  assumes "check_battery_level (sensor_result env) LOW_THRESHOLD HIGH_THRESHOLD = (out, Inr (Some i))"
    and "Some (status i) = last_status st \<or> time_check env - last_notify st \<le> 10"
  shows "loop_body ht env st =
           ([Print (message i), Sleep POLL_SECONDS],
            Inr \<lparr>last_status = Some (status i), last_notify = last_notify st\<rparr>)"
proof -
  have "out = []" using assms(1) check_battery_level_Some by blast
  with assms show ?thesis
    by (auto simp: loop_body_def handle_info_def then_do_def return_io_def emit_def Let_def)
qed

lemma loop_body_sample_state:
  assumes "check_battery_level (sensor_result env) LOW_THRESHOLD HIGH_THRESHOLD = (out, Inr (Some i))"
    and "loop_body ht env st = (out', Inr st')"
  shows "last_status st' = Some (status i)"
  using assms
  by (auto simp: loop_body_def handle_info_def then_do_def return_io_def emit_def Let_def
      split: if_splits sum.splits prod.splits)


lemma notify_starts_with_request:
  "\<exists>req tl r. notify ht env msg = (UrlOpen req # tl, r)
       \<and> payload_chat_id req = CHAT_ID \<and> payload_text req = battery_sign @ '' '' @ msg"
  by (auto simp: notify_def send_telegram_message_def send_windows_toast_def then_do_def
      return_io_def BOT_TOKEN_def CHAT_ID_def Let_def split: sum.splits)

lemma loop_body_first_sample:
  assumes "check_battery_level (sensor_result env) LOW_THRESHOLD HIGH_THRESHOLD = (out, Inr (Some i))"
    and "Some (status i) \<noteq> last_status st"
    and "10 < time_check env - last_notify st"
  shows "\<exists>req tl. fst (loop_body ht env st) = Print (message i) # UrlOpen req # tl
           \<and> payload_text req = battery_sign @ '' '' @ message i"
proof -
  have out: "out = []" using assms(1) check_battery_level_Some by blast
  obtain req tl r where n: "notify ht env (message i) = (UrlOpen req # tl, r)"
    and p: "payload_text req = battery_sign @ '' '' @ message i"
    using notify_starts_with_request by blast
  have "\<exists>tl'. fst (loop_body ht env st) = Print (message i) # UrlOpen req # tl'"
    using assms out n
    by (cases r)
      (simp_all add: loop_body_def handle_info_def then_do_def return_io_def emit_def Let_def)
  with p show ?thesis by blast
qed

lemma main_loop_no_battery:
  assumes "\<forall>e \<in> set pre. sensor_result e = Inr None"
  shows "main_loop ht (pre @ envs) st =
           (concat (map (\<lambda>_. [Print ''No battery detected.'', Sleep POLL_SECONDS]) pre)
              @ fst (main_loop ht envs st),
            snd (main_loop ht envs st))"
  using assms
proof (induction pre)
  case Nil
  then show ?case by simp
next
  case (Cons e pre)
  then show ?case
    by (simp add: loop_body_no_battery then_do_def split: prod.splits sum.splits)
qed


text \<open>
  Claim C8. In a cycle where the sensor reports no battery, the cycle prints the notice,
  sleeps and leaves both \<open>last_status\<close> and \<open>last_notify\<close> as they were; and a cycle
  that changes \<open>last_status\<close> is a cycle in which the sensor returned a reading.
\<close>

theorem no_sample_keeps_state:
  "(sensor_result env = Inr None \<longrightarrow>
      loop_body ht env st = ([Print ''No battery detected.'', Sleep POLL_SECONDS], Inr st))
   \<and> (\<forall>out st'. loop_body ht env st = (out, Inr st') \<and> last_status st' \<noteq> last_status st \<longrightarrow>
         (\<exists>bat. sensor_result env = Inr (Some bat)))"
proof -
  have "\<exists>bat. sensor_result env = Inr (Some bat)"
    if run: "loop_body ht env st = (out, Inr st')" and upd: "last_status st' \<noteq> last_status st"
    for out st'
  proof (cases "sensor_result env")
    case (Inl e)
    with run show ?thesis
      by (simp add: loop_body_def check_battery_level_def then_do_def)
  next
    case (Inr r)
    show ?thesis
    proof (cases r)
      case None
      with Inr run upd show ?thesis
        by (simp add: loop_body_no_battery)
    next
      case (Some bat)
      with Inr show ?thesis by simp
    qed
  qed
  then show ?thesis
    by (simp add: loop_body_no_battery)
qed

theorem no_sample_keeps_state_witness:
  "loop_body True (example_env None 1005) \<lparr>last_status = Some ''normal'', last_notify = 1000\<rparr>
   = ([Print ''No battery detected.'', Sleep POLL_SECONDS],
      Inr \<lparr>last_status = Some ''normal'', last_notify = 1000\<rparr>)"
  using no_sample_keeps_state
    [of "example_env None 1005" True "\<lparr>last_status = Some ''normal'', last_notify = 1000\<rparr>"]
  by (simp add: example_env_def)

text \<open>
  Claim C5. Take two consecutive cycles, each with a sample, whose statuses are the same.
  Whatever the clock reads, the second cycle only prints its line and sleeps: its trace
  has no send on either channel, and it leaves the state as the first cycle left it.
\<close>

theorem same_status_never_sends:
  assumes "check_battery_level (sensor_result env1) LOW_THRESHOLD HIGH_THRESHOLD = (o1, Inr (Some i1))"
    and "check_battery_level (sensor_result env2) LOW_THRESHOLD HIGH_THRESHOLD = (o2, Inr (Some i2))"
    and "status i1 = status i2"
    and "loop_body ht env1 st = (out1, Inr st1)"
  shows "loop_body ht env2 st1 = ([Print (message i2), Sleep POLL_SECONDS], Inr st1)
         \<and> (\<forall>ev \<in> set (fst (loop_body ht env2 st1)). \<not> is_send ev)"
proof -
  have last: "last_status st1 = Some (status i2)"
    using loop_body_sample_state [OF assms(1) assms(4)] assms(3) by simp
  then have "loop_body ht env2 st1 =
      ([Print (message i2), Sleep POLL_SECONDS],
       Inr \<lparr>last_status = Some (status i2), last_notify = last_notify st1\<rparr>)"
    using loop_body_quiet [OF assms(2), of st1 ht] by simp
  moreover have "\<lparr>last_status = Some (status i2), last_notify = last_notify st1\<rparr> = st1"
    using last by simp
  ultimately show ?thesis by simp
qed

theorem same_status_never_sends_witness:
  "loop_body True (example_env (Some (example_reading 15 False)) 999999)
     \<lparr>last_status = Some ''low'', last_notify = 1000\<rparr>
   = ([Print (message (example_info ''low'' 15 False)), Sleep POLL_SECONDS],
      Inr \<lparr>last_status = Some ''low'', last_notify = 1000\<rparr>)"
proof -
  have first: "loop_body True (example_env (Some (example_reading 15 False)) 1000) initial_state
     = ([Print (message (example_info ''low'' 15 False)),
         UrlOpen \<lparr>url = ''https://api.telegram.org/bot'' @ BOT_TOKEN @ ''/sendMessage'',
                  payload_chat_id = CHAT_ID,
                  payload_text = battery_sign @ '' '' @ message (example_info ''low'' 15 False),
                  content_type = ''application/json'', timeout = 10\<rparr>,
         Win11Toast ''Battery Watcher'' (message (example_info ''low'' 15 False)),
         Sleep POLL_SECONDS],
        Inr \<lparr>last_status = Some ''low'', last_notify = 1000\<rparr>)"
    by (simp add: loop_body_def example_check handle_info_def notify_def
        send_telegram_message_def send_windows_toast_def then_do_def return_io_def emit_def
        initial_state_def Let_def)
      (simp add: example_env_def example_info_def BOT_TOKEN_def CHAT_ID_def)
  from same_status_never_sends [OF example_check example_check _ first] show ?thesis
    by simp
qed

text \<open>
  Claim C6. In a cycle whose status differs from \<open>last_status\<close>, if at most 10 seconds
  (so in particular fewer than 10) have passed since \<open>last_notify\<close>, the cycle only
  prints its line and sleeps: there is no send on either channel, \<open>last_notify\<close> keeps
  its value, and \<open>last_status\<close> becomes the new status.
\<close>

theorem rate_limit_blocks_send:
  assumes "check_battery_level (sensor_result env) LOW_THRESHOLD HIGH_THRESHOLD = (out, Inr (Some i))"
    and "Some (status i) \<noteq> last_status st"
    and "time_check env - last_notify st \<le> 10"
  shows "loop_body ht env st =
           ([Print (message i), Sleep POLL_SECONDS],
            Inr \<lparr>last_status = Some (status i), last_notify = last_notify st\<rparr>)
         \<and> (\<forall>ev \<in> set (fst (loop_body ht env st)). \<not> is_send ev)"
  using loop_body_quiet [OF assms(1), of st ht] assms(3) by simp

theorem rate_limit_blocks_send_witness:
  "loop_body True (example_env (Some (example_reading 15 False)) 1005)
     \<lparr>last_status = Some ''normal'', last_notify = 1000\<rparr>
   = ([Print (message (example_info ''low'' 15 False)), Sleep POLL_SECONDS],
      Inr \<lparr>last_status = Some ''low'', last_notify = 1000\<rparr>)"
  using rate_limit_blocks_send [OF example_check,
      of "\<lparr>last_status = Some ''normal'', last_notify = 1000\<rparr>" 1005 True]
  by (simp add: example_env_def example_info_def)

text \<open>
  Claim C7. Start \<open>main\<close> in its initial state (\<open>last_status\<close> is \<open>None\<close>,
  \<open>last_notify\<close> is 0), let any number of cycles find no battery, and let the next cycle
  get a reading while the clock reads more than 10 seconds since the epoch. Then that
  cycle makes the Telegram request, with the battery sign and the cycle's message as its
  text, and nothing before it in the run is a send.
\<close>

theorem first_sample_notifies:
  assumes "\<forall>e \<in> set pre. sensor_result e = Inr None"
    and "sensor_result env = Inr (Some bat)"
    and "10 < time_check env"
  shows "\<exists>i quiet req tl.
           check_battery_level (sensor_result env) LOW_THRESHOLD HIGH_THRESHOLD = ([], Inr (Some i))
           \<and> fst (main ht (pre @ [env])) = quiet @ UrlOpen req # tl
           \<and> (\<forall>ev \<in> set quiet. \<not> is_send ev)
           \<and> payload_text req = battery_sign @ '' '' @ message i"
proof -
  obtain i where i: "check_battery_level (sensor_result env) LOW_THRESHOLD HIGH_THRESHOLD
      = ([], Inr (Some i))"
    using assms(2) by (simp add: check_battery_level_def Let_def)
  obtain req tl where body: "fst (loop_body ht env initial_state)
      = Print (message i) # UrlOpen req # tl"
    and p: "payload_text req = battery_sign @ '' '' @ message i"
    using loop_body_first_sample [OF i, of initial_state ht] assms(3)
    by (auto simp: initial_state_def)
  define quiet where "quiet =
    Print ''Battery Watcher started...'' #
    concat (map (\<lambda>_. [Print ''No battery detected.'', Sleep POLL_SECONDS]) pre) @
    [Print (message i)]"
  have "main_loop ht [env] initial_state = loop_body ht env initial_state"
    by (auto simp: then_do_def return_io_def split: prod.splits sum.splits)
  with body have "fst (main_loop ht [env] initial_state) = Print (message i) # UrlOpen req # tl"
    by simp
  then have "fst (main ht (pre @ [env])) = quiet @ UrlOpen req # tl"
    by (simp add: main_def main_loop_no_battery [OF assms(1)] then_do_def emit_def quiet_def)
  moreover have "\<forall>ev \<in> set quiet. \<not> is_send ev"
    by (auto simp: quiet_def)
  ultimately show ?thesis using i p by blast
qed

theorem first_sample_notifies_witness:
  "\<exists>quiet req tl.
     fst (main True [example_env None 1000, example_env (Some (example_reading 15 False)) 1060])
       = quiet @ UrlOpen req # tl
     \<and> payload_text req = battery_sign @ '' '' @ message (example_info ''low'' 15 False)"
proof -
  have pre: "\<forall>e \<in> set [example_env None 1000]. sensor_result e = Inr None"
    by (simp add: example_env_def)
  have s: "sensor_result (example_env (Some (example_reading 15 False)) 1060)
     = Inr (Some (example_reading 15 False))"
    and t: "10 < time_check (example_env (Some (example_reading 15 False)) 1060)"
    by (simp_all add: example_env_def)
  from first_sample_notifies [OF pre s t, of True] show ?thesis
    by (auto simp: example_check)
qed

end
